theory Spec2Isabelle
  imports Main
begin

section \<open>Remote module construction (torch/distributed/nn/api/remote\_module.py)\<close>

text \<open>
  The file under verification is the construction orchestrator \<^verbatim>\<open>RemoteModule\<close> with its
  three helpers \<^verbatim>\<open>_gen_global_unique_name\<close>, \<^verbatim>\<open>_instantiate_template\<close> and
  \<^verbatim>\<open>_script_module_creator_wrapper\<close>. Python names that start with an underscore lose
  it here, since an Isabelle name cannot start with one. Everything the file imports
  (\<^verbatim>\<open>torch.distributed.rpc\<close>, \<^verbatim>\<open>instantiator\<close>, \<^verbatim>\<open>torch.jit\<close>) is a collaborator that is
  not part of the file: what a collaborator computes is a field of the records \<open>node\<close>
  and \<open>env\<close> below, so every theorem holds for whatever those collaborators do.
\<close>

subsection \<open>Python values\<close>

text \<open>
  The values that travel as construction arguments and as class attributes. Only their
  truth value matters to the orchestrator (\<^verbatim>\<open>if is_scriptable:\<close>).
\<close>

datatype pyval = PyNone | PyBool bool | PyInt int | PyStr string

fun truthy :: "pyval \<Rightarrow> bool" where
  "truthy PyNone = False"
| "truthy (PyBool b) = b"
| "truthy (PyInt i) = (i \<noteq> 0)"
| "truthy (PyStr s) = (s \<noteq> [])"

text \<open>
  A collaborator that raises returns \<open>Inl\<close> of the class name of what it raised. An
  exception that leaves \<^verbatim>\<open>RemoteModule\<close> is either the failure of its own \<^verbatim>\<open>assert\<close>
  (line 64, with its message) or one that a collaborator raised and the function lets
  through.
\<close>

type_synonym raised = string

datatype exc = AssertionError string | Raised raised

text \<open>
  The interface class \<^verbatim>\<open>module_interface_cls\<close>: a name and its attributes.
  \<^verbatim>\<open>getattr(obj, name, default)\<close> is the attribute when present, the default otherwise.
\<close>

record iface =
  iface_name :: string
  iface_attrs :: "(string \<times> pyval) list"

definition getattr :: "iface \<Rightarrow> string \<Rightarrow> pyval \<Rightarrow> pyval" where
  "getattr obj name dflt =
     (case map_of (iface_attrs obj) name of None \<Rightarrow> dflt | Some v \<Rightarrow> v)"

type_synonym py_args = "pyval list"
type_synonym py_kwargs = "(string \<times> pyval) list"

text \<open>
  A module creator is a callable shipped by reference; the node that runs it decides
  what the call computes (\<open>call_creator\<close> below). A module is named by what it is.
\<close>

datatype module_creator = Creator string

datatype nn_module = Module string | ScriptModule string

subsection \<open>String formatting of the counter\<close>

text \<open>
  \<^verbatim>\<open>f"{local_unique_id}"\<close> formats a Python int in decimal, with a minus sign when negative.
\<close>

definition digit_char :: "nat \<Rightarrow> char" where
  "digit_char d = char_of (48 + d)"

fun str_nat :: "nat \<Rightarrow> string" where
  "str_nat n = (if n < 10 then [digit_char n] else str_nat (n div 10) @ [digit_char (n mod 10)])"

declare str_nat.simps [simp del]

definition str_int :: "int \<Rightarrow> string" where
  "str_int i = (if i < 0 then CHR ''-'' # str_nat (nat (- i)) else str_nat (nat i))"

subsection \<open>Collaborators\<close>

text \<open>
  The proxy class generated by the instantiator, and the module object it is an
  attribute of (\<^verbatim>\<open>generated_module._RemoteModule\<close>).
\<close>

record remote_module_cls =
  cls_module_name :: string
  cls_methods :: "string list"

record generated_module =
  RemoteModule_attr :: remote_module_cls

text \<open>
  What one node's installation computes: the code generation backend
  (\<^verbatim>\<open>instantiator.instantiate_remote_module_template\<close>), the return type inference
  (\<^verbatim>\<open>instantiator.get_return_type_from_callable\<close>), the call of a module creator with
  \<^verbatim>\<open>*args, **kwargs\<close>, and \<^verbatim>\<open>torch.jit.script\<close>. Each may raise.
\<close>

record node =
  instantiate_remote_module_template :: "string \<Rightarrow> iface \<Rightarrow> pyval \<Rightarrow> raised + generated_module"
  get_return_type_from_callable :: "module_creator \<Rightarrow> raised + iface"
  call_creator :: "module_creator \<Rightarrow> py_args \<Rightarrow> py_kwargs \<Rightarrow> raised + nn_module"
  jit_script :: "nn_module \<Rightarrow> raised + nn_module"

record rpc_agent =
  worker_name :: string

text \<open>
  The process's surroundings: the current RPC agent when one is set, the installation of
  the calling node, and what the RPC layer reaches under a worker name (the
  installation of that worker, or the exception the RPC call raises at the call site).
\<close>

record env =
  current_rpc_agent :: "rpc_agent option"
  self_node :: node
  rpc_route :: "string \<Rightarrow> raised + node"

text \<open>
  A reference handle. \<open>RRef v t\<close> is \<^verbatim>\<open>rpc.RRef(v, t)\<close>: a handle on an existing value with
  its type hint. \<open>UserRRef to f args kwargs\<close> is the handle \<^verbatim>\<open>rpc.remote(to, f, args, kwargs)\<close>
  returns: it names the owner and the pending call \<^verbatim>\<open>f(*args, **kwargs)\<close>.
\<close>

datatype rref =
    RRef nn_module iface
  | UserRRef string module_creator py_args py_kwargs

datatype 'a future = Future "raised + 'a"

text \<open>
  What an instrumented run observes, in the order it happens: the three kinds of request
  handed to the RPC layer with their arguments, the template instantiation on the calling
  node, and the wait on the future.
\<close>

datatype event =
    Rpc_async string string iface pyval
  | Instantiate_local string iface pyval
  | Rpc_sync string module_creator iface py_args py_kwargs
  | Rpc_remote string module_creator py_args py_kwargs
  | Fut_wait

fun is_network_call :: "event \<Rightarrow> bool" where
  "is_network_call (Instantiate_local _ _ _) = False"
| "is_network_call _ = True"

fun is_creation_request :: "event \<Rightarrow> bool" where
  "is_creation_request (Rpc_sync _ _ _ _ _) = True"
| "is_creation_request (Rpc_remote _ _ _ _) = True"
| "is_creation_request _ = False"

text \<open>
  The mutable state: the module global \<^verbatim>\<open>_NEXT_LOCAL_ID\<close> and the log of RPC calls.
\<close>

record state =
  NEXT_LOCAL_ID :: int
  trace :: "event list"

definition log_event :: "event \<Rightarrow> state \<Rightarrow> state" where
  "log_event ev s = s\<lparr>trace := trace s @ [ev]\<rparr>"

subsection \<open>The helpers of the file\<close>

text \<open>
  Modelled from the spec: \<^verbatim>\<open>rpc._is_current_rpc_agent_set()\<close> and
  \<^verbatim>\<open>rpc._get_current_rpc_agent()\<close>, which are not part of the file. The RPC runtime exposes
  a test whether it is active and the calling node's own identity (section 6); asking for
  the agent when none is set raises (section 4.1).
\<close>

definition is_current_rpc_agent_set :: "env \<Rightarrow> bool" where
  "is_current_rpc_agent_set e = (current_rpc_agent e \<noteq> None)"

definition get_current_rpc_agent :: "env \<Rightarrow> raised + rpc_agent" where
  "get_current_rpc_agent e =
     (case current_rpc_agent e of None \<Rightarrow> Inl ''RuntimeError'' | Some a \<Rightarrow> Inr a)"

text \<open>
  \<^verbatim>\<open>_gen_global_unique_name\<close>, lines 14 to 20: read the counter, increment it (both under
  the lock), then ask the agent for the worker's name and format.
\<close>

definition gen_global_unique_name :: "env \<Rightarrow> state \<Rightarrow> (raised + string) \<times> state" where
  "gen_global_unique_name e s =
     (let local_unique_id = NEXT_LOCAL_ID s;
          s1 = s\<lparr>NEXT_LOCAL_ID := NEXT_LOCAL_ID s + 1\<rparr>
      in case get_current_rpc_agent e of
           Inl err \<Rightarrow> (Inl err, s1)
         | Inr agent \<Rightarrow>
             (let self_worker_name = worker_name agent
              in (Inr (self_worker_name @ ''_'' @ str_int local_unique_id), s1)))"

text \<open>\<^verbatim>\<open>_instantiate_template\<close>, lines 23 to 34, run on the installation \<open>nd\<close>.\<close>

definition generated_module_name :: "string \<Rightarrow> string" where
  "generated_module_name global_unique_name = ''_RemoteModule_'' @ global_unique_name"

definition instantiate_template :: "node \<Rightarrow> string \<Rightarrow> iface \<Rightarrow> pyval \<Rightarrow> raised + remote_module_cls" where
  "instantiate_template nd global_unique_name module_interface_cls is_scriptable =
     (case instantiate_remote_module_template nd
             (generated_module_name global_unique_name) module_interface_cls is_scriptable of
        Inl err \<Rightarrow> Inl err
      | Inr generated_module \<Rightarrow> Inr (RemoteModule_attr generated_module))"

text \<open>The same function called directly on the calling node, as line 91 does.\<close>

definition instantiate_template_local ::
    "env \<Rightarrow> string \<Rightarrow> iface \<Rightarrow> pyval \<Rightarrow> state \<Rightarrow> (raised + remote_module_cls) \<times> state" where
  "instantiate_template_local e global_unique_name module_interface_cls is_scriptable s =
     (instantiate_template (self_node e) global_unique_name module_interface_cls is_scriptable,
      log_event (Instantiate_local global_unique_name module_interface_cls is_scriptable) s)"

text \<open>\<^verbatim>\<open>_script_module_creator_wrapper\<close>, lines 37 to 40, run on the installation \<open>nd\<close>.\<close>

definition script_module_creator_wrapper ::
    "node \<Rightarrow> module_creator \<Rightarrow> iface \<Rightarrow> py_args \<Rightarrow> py_kwargs \<Rightarrow> raised + rref" where
  "script_module_creator_wrapper nd module_creator module_interface_cls args kwargs =
     (case call_creator nd module_creator args kwargs of
        Inl err \<Rightarrow> Inl err
      | Inr created \<Rightarrow>
          (case jit_script nd created of
             Inl err \<Rightarrow> Inl err
           | Inr script_module \<Rightarrow> Inr (RRef script_module module_interface_cls)))"

subsection \<open>The RPC primitives\<close>

text \<open>
  Modelled from the spec: the RPC layer's asynchronous call, synchronous call and
  deferred creation (section 6, c to e), which are not part of the file. The file has one
  call site for each, so each primitive is given with the function that call site ships.
  \<^item> \<open>rpc_async\<close> is \<^verbatim>\<open>rpc.rpc_async(to, _instantiate_template, (name, cls, flag))\<close>: it
    returns at once with a future, which holds what the handler computes on the worker.
  \<^item> \<open>rpc_sync\<close> is \<^verbatim>\<open>rpc.rpc_sync(to, _script_module_creator_wrapper, (...))\<close>: it returns
    what the handler computes on the worker, or raises what the handler raises.
  \<^item> \<open>remote\<close> is \<^verbatim>\<open>rpc.remote(to, module_creator, args, kwargs)\<close>: it returns a handle
    without looking at what the creator computes.
  \<^item> \<open>wait\<close> is \<^verbatim>\<open>fut.wait()\<close>: the future's value, or the exception it resolved with.
  Every call is logged, also one that raises at the call site.
\<close>

definition rpc_async ::
    "env \<Rightarrow> string \<Rightarrow> string \<times> iface \<times> pyval \<Rightarrow> state \<Rightarrow> (raised + remote_module_cls future) \<times> state" where
  "rpc_async e to call_args s =
     (case call_args of (global_unique_name, module_interface_cls, is_scriptable) \<Rightarrow>
        (case rpc_route e to of
           Inl err \<Rightarrow> Inl err
         | Inr nd \<Rightarrow>
             Inr (Future (instantiate_template nd global_unique_name module_interface_cls is_scriptable)),
         log_event (Rpc_async to global_unique_name module_interface_cls is_scriptable) s))"

definition rpc_sync ::
    "env \<Rightarrow> string \<Rightarrow> module_creator \<times> iface \<times> py_args \<times> py_kwargs \<Rightarrow> state \<Rightarrow> (raised + rref) \<times> state" where
  "rpc_sync e to call_args s =
     (case call_args of (module_creator, module_interface_cls, args, kwargs) \<Rightarrow>
        (case rpc_route e to of
           Inl err \<Rightarrow> Inl err
         | Inr nd \<Rightarrow> script_module_creator_wrapper nd module_creator module_interface_cls args kwargs,
         log_event (Rpc_sync to module_creator module_interface_cls args kwargs) s))"

definition remote ::
    "env \<Rightarrow> string \<Rightarrow> module_creator \<Rightarrow> py_args \<Rightarrow> py_kwargs \<Rightarrow> state \<Rightarrow> (raised + rref) \<times> state" where
  "remote e to module_creator args kwargs s =
     (case rpc_route e to of
        Inl err \<Rightarrow> Inl err
      | Inr nd \<Rightarrow> Inr (UserRRef to module_creator args kwargs),
      log_event (Rpc_remote to module_creator args kwargs) s)"

definition wait :: "'a future \<Rightarrow> state \<Rightarrow> (raised + 'a) \<times> state" where
  "wait fut s = (case fut of Future r \<Rightarrow> (r, log_event Fut_wait s))"

subsection \<open>The orchestrator\<close>

text \<open>
  Modelled from the spec: the constructor of the generated class, called as
  \<^verbatim>\<open>remote_module_cls(module_rref, is_scriptable)\<close>; the class is generated code and not part
  of the file. A proxy instance combines the proxy type, the reference handle and the
  capability flag (section 3, and step 7 of section 4.3).
\<close>

record remote_module =
  rm_cls :: remote_module_cls
  rm_module_rref :: rref
  rm_is_scriptable :: pyval

definition new_remote_module :: "remote_module_cls \<Rightarrow> rref \<Rightarrow> pyval \<Rightarrow> remote_module" where
  "new_remote_module c module_rref is_scriptable =
     \<lparr>rm_cls = c, rm_module_rref = module_rref, rm_is_scriptable = is_scriptable\<rparr>"

text \<open>
  \<^verbatim>\<open>RemoteModule\<close>, lines 43 to 109. An argument the caller leaves out is \<open>None\<close>. Each
  \<open>Inl\<close> branch is an exception leaving the function at that line.
\<close>

definition RemoteModule ::
    "env \<Rightarrow> string \<Rightarrow> module_creator \<Rightarrow> py_args option \<Rightarrow> py_kwargs option \<Rightarrow>
     string option \<Rightarrow> iface option \<Rightarrow> state \<Rightarrow> (exc + remote_module) \<times> state" where
  "RemoteModule e to module_creator args kwargs global_unique_name module_interface_cls s =
     (if \<not> is_current_rpc_agent_set e
      then (Inl (AssertionError ''RemoteModule only works in RPC.''), s)
      else
       (let args = (case args of Some a \<Rightarrow> a | None \<Rightarrow> []);
            kwargs = (case kwargs of Some k \<Rightarrow> k | None \<Rightarrow> []);
            (name_r, s) = (case global_unique_name of
                             Some n \<Rightarrow> (Inr n, s)
                           | None \<Rightarrow> gen_global_unique_name e s)
        in case name_r of
             Inl err \<Rightarrow> (Inl (Raised err), s)
           | Inr global_unique_name \<Rightarrow>
       (case (case module_interface_cls of
                Some c \<Rightarrow> Inr c
              | None \<Rightarrow> get_return_type_from_callable (self_node e) module_creator) of
          Inl err \<Rightarrow> (Inl (Raised err), s)
        | Inr module_interface_cls \<Rightarrow>
       (let is_scriptable =
              getattr module_interface_cls ''__torch_script_interface__'' (PyBool False);
            (fut_r, s) =
              rpc_async e to (global_unique_name, module_interface_cls, is_scriptable) s
        in case fut_r of
             Inl err \<Rightarrow> (Inl (Raised err), s)
           | Inr fut \<Rightarrow>
       (let (cls_r, s) =
              instantiate_template_local e global_unique_name module_interface_cls is_scriptable s
        in case cls_r of
             Inl err \<Rightarrow> (Inl (Raised err), s)
           | Inr remote_module_cls \<Rightarrow>
       (let (rref_r, s) =
              (if truthy is_scriptable
               then rpc_sync e to (module_creator, module_interface_cls, args, kwargs) s
               else remote e to module_creator args kwargs s)
        in case rref_r of
             Inl err \<Rightarrow> (Inl (Raised err), s)
           | Inr module_rref \<Rightarrow>
       (let remote_module = new_remote_module remote_module_cls module_rref is_scriptable;
            (wait_r, s) = wait fut s
        in case wait_r of
             Inl err \<Rightarrow> (Inl (Raised err), s)
           | Inr _ \<Rightarrow> (Inr remote_module, s))))))))"

subsection \<open>Vocabulary for the properties\<close>

text \<open>
  The values a run of \<^verbatim>\<open>RemoteModule\<close> settles on before its first RPC, written as
  functions of the call's arguments: the name of the construction, the interface class,
  the capability flag, the construction arguments and the counter the call leaves behind.
\<close>

definition resolved_name :: "rpc_agent \<Rightarrow> string option \<Rightarrow> state \<Rightarrow> string" where
  "resolved_name agent gname s =
     (case gname of
        Some n \<Rightarrow> n
      | None \<Rightarrow> worker_name agent @ ''_'' @ str_int (NEXT_LOCAL_ID s))"

definition counter_after :: "string option \<Rightarrow> state \<Rightarrow> int" where
  "counter_after gname s =
     (case gname of Some n \<Rightarrow> NEXT_LOCAL_ID s | None \<Rightarrow> NEXT_LOCAL_ID s + 1)"

definition resolved_iface :: "env \<Rightarrow> module_creator \<Rightarrow> iface option \<Rightarrow> raised + iface" where
  "resolved_iface e mc icls =
     (case icls of
        Some c \<Rightarrow> Inr c
      | None \<Rightarrow> get_return_type_from_callable (self_node e) mc)"

definition capability_flag :: "iface \<Rightarrow> pyval" where
  "capability_flag cls = getattr cls ''__torch_script_interface__'' (PyBool False)"

definition args_or_empty :: "py_args option \<Rightarrow> py_args" where
  "args_or_empty args = (case args of Some a \<Rightarrow> a | None \<Rightarrow> [])"

definition kwargs_or_empty :: "py_kwargs option \<Rightarrow> py_kwargs" where
  "kwargs_or_empty kwargs = (case kwargs of Some k \<Rightarrow> k | None \<Rightarrow> [])"

text \<open>The creation request of lines 96 to 103, and what it hands back.\<close>

definition creation_event ::
    "string \<Rightarrow> module_creator \<Rightarrow> iface \<Rightarrow> py_args \<Rightarrow> py_kwargs \<Rightarrow> event" where
  "creation_event to mc cls a k =
     (if truthy (capability_flag cls) then Rpc_sync to mc cls a k else Rpc_remote to mc a k)"

definition creation_result ::
    "node \<Rightarrow> string \<Rightarrow> module_creator \<Rightarrow> iface \<Rightarrow> py_args \<Rightarrow> py_kwargs \<Rightarrow> raised + rref" where
  "creation_result nd to mc cls a k =
     (if truthy (capability_flag cls) then script_module_creator_wrapper nd mc cls a k
      else Inr (UserRRef to mc a k))"

text \<open>What a run that takes the state from \<open>s\<close> to \<open>s'\<close> added to the log.\<close>

definition events_of_run :: "state \<Rightarrow> state \<Rightarrow> event list" where
  "events_of_run s s' = drop (length (trace s)) (trace s')"

subsection \<open>The identity allocator under concurrent callers\<close>

text \<open>
  \<^verbatim>\<open>_gen_global_unique_name\<close> once more, now as the sequence of steps one thread takes, so
  that the steps of several callers can interleave. A step is what cannot be interrupted
  by another thread: acquiring the lock (which does not happen while another thread
  holds it), the read of the global into \<^verbatim>\<open>local_unique_id\<close>, the read and the write that
  make up \<^verbatim>\<open>_NEXT_LOCAL_ID += 1\<close>, the release of the lock at the end of the \<^verbatim>\<open>with\<close> block,
  the read of the worker's name, and the formatting of the result.
\<close>

datatype pc =
    Acquire | Read_id | Load_counter | Store_counter | Release | Read_name | Format | Returned

record thread =
  t_pc :: pc
  t_local_unique_id :: int
  t_loaded :: int
  t_self_worker_name :: string
  t_returned :: "(raised + string) option"

text \<open>
  The process: the global \<^verbatim>\<open>_NEXT_LOCAL_ID\<close>, the thread that holds
  \<^verbatim>\<open>_NEXT_LOCAL_ID_LOCK\<close> if any, and the threads by their identifiers.
\<close>

record process =
  shared_NEXT_LOCAL_ID :: int
  lock_holder :: "nat option"
  threads :: "nat \<Rightarrow> thread"

definition set_thread :: "nat \<Rightarrow> thread \<Rightarrow> process \<Rightarrow> process" where
  "set_thread i t p = p\<lparr>threads := (threads p)(i := t)\<rparr>"

text \<open>Thread \<open>i\<close> takes its next step. A thread that waits for the lock stays where it is.\<close>

definition step :: "env \<Rightarrow> nat \<Rightarrow> process \<Rightarrow> process" where
  "step e i p =
     (let t = threads p i in
      case t_pc t of
        Acquire \<Rightarrow>
          (case lock_holder p of
             Some _ \<Rightarrow> p
           | None \<Rightarrow> set_thread i (t\<lparr>t_pc := Read_id\<rparr>) (p\<lparr>lock_holder := Some i\<rparr>))
      | Read_id \<Rightarrow>
          set_thread i (t\<lparr>t_pc := Load_counter, t_local_unique_id := shared_NEXT_LOCAL_ID p\<rparr>) p
      | Load_counter \<Rightarrow>
          set_thread i (t\<lparr>t_pc := Store_counter, t_loaded := shared_NEXT_LOCAL_ID p\<rparr>) p
      | Store_counter \<Rightarrow>
          set_thread i (t\<lparr>t_pc := Release\<rparr>) (p\<lparr>shared_NEXT_LOCAL_ID := t_loaded t + 1\<rparr>)
      | Release \<Rightarrow>
          set_thread i (t\<lparr>t_pc := Read_name\<rparr>) (p\<lparr>lock_holder := None\<rparr>)
      | Read_name \<Rightarrow>
          (case get_current_rpc_agent e of
             Inl err \<Rightarrow> set_thread i (t\<lparr>t_pc := Returned, t_returned := Some (Inl err)\<rparr>) p
           | Inr agent \<Rightarrow>
               set_thread i (t\<lparr>t_pc := Format, t_self_worker_name := worker_name agent\<rparr>) p)
      | Format \<Rightarrow>
          set_thread i
            (t\<lparr>t_pc := Returned,
               t_returned :=
                 Some (Inr (t_self_worker_name t @ ''_'' @ str_int (t_local_unique_id t)))\<rparr>) p
      | Returned \<Rightarrow> p)"

text \<open>A schedule names the thread that moves next; the process follows it step by step.\<close>

fun run :: "env \<Rightarrow> nat list \<Rightarrow> process \<Rightarrow> process" where
  "run e [] p = p"
| "run e (i # sched) p = run e sched (step e i p)"

text \<open>
  At the start the counter has some value, nobody holds the lock, and every thread is
  about to call the function.
\<close>

definition new_thread :: thread where
  "new_thread =
     \<lparr>t_pc = Acquire, t_local_unique_id = 0, t_loaded = 0, t_self_worker_name = [],
      t_returned = None\<rparr>"

definition start :: "int \<Rightarrow> process" where
  "start c = \<lparr>shared_NEXT_LOCAL_ID = c, lock_holder = None, threads = (\<lambda>i. new_thread)\<rparr>"

text \<open>
  The facts that hold of every process reachable from the start: who is between acquire
  and release holds the lock; an identifier already read is the counter itself while its
  reader is about to increment, and below the counter afterwards; no two threads have
  read the same identifier; and what a thread returned is built from its own identifier.
\<close>

fun in_critical_section :: "pc \<Rightarrow> bool" where
  "in_critical_section Read_id = True"
| "in_critical_section Load_counter = True"
| "in_critical_section Store_counter = True"
| "in_critical_section Release = True"
| "in_critical_section _ = False"

fun has_id :: "pc \<Rightarrow> bool" where
  "has_id Acquire = False"
| "has_id Read_id = False"
| "has_id _ = True"

definition thread_ok :: "env \<Rightarrow> process \<Rightarrow> nat \<Rightarrow> bool" where
  "thread_ok e p i =
     (let t = threads p i in
        (in_critical_section (t_pc t) = (lock_holder p = Some i))
      \<and> (case t_pc t of
            Acquire \<Rightarrow> t_returned t = None
          | Read_id \<Rightarrow> t_returned t = None
          | Load_counter \<Rightarrow>
              t_local_unique_id t = shared_NEXT_LOCAL_ID p \<and> t_returned t = None
          | Store_counter \<Rightarrow>
              t_local_unique_id t = shared_NEXT_LOCAL_ID p \<and> t_loaded t = shared_NEXT_LOCAL_ID p
              \<and> t_returned t = None
          | Release \<Rightarrow> t_local_unique_id t < shared_NEXT_LOCAL_ID p \<and> t_returned t = None
          | Read_name \<Rightarrow> t_local_unique_id t < shared_NEXT_LOCAL_ID p \<and> t_returned t = None
          | Format \<Rightarrow>
              t_local_unique_id t < shared_NEXT_LOCAL_ID p \<and> t_returned t = None
              \<and> get_current_rpc_agent e = Inr \<lparr>worker_name = t_self_worker_name t\<rparr>
          | Returned \<Rightarrow>
              t_local_unique_id t < shared_NEXT_LOCAL_ID p
              \<and> (case get_current_rpc_agent e of
                    Inl err \<Rightarrow> t_returned t = Some (Inl err)
                  | Inr agent \<Rightarrow>
                      t_returned t =
                        Some (Inr (worker_name agent @ ''_'' @ str_int (t_local_unique_id t))))))"

definition ids_distinct :: "process \<Rightarrow> bool" where
  "ids_distinct p =
     (\<forall>i j. i \<noteq> j \<longrightarrow> has_id (t_pc (threads p i)) \<longrightarrow> has_id (t_pc (threads p j)) \<longrightarrow>
        t_local_unique_id (threads p i) \<noteq> t_local_unique_id (threads p j))"

definition invariant :: "env \<Rightarrow> process \<Rightarrow> bool" where
  "invariant e p = ((\<forall>i. thread_ok e p i) \<and> ids_distinct p)"

subsection \<open>A two-worker installation for concrete runs\<close>

text \<open>
  An interface class that carries the \<^verbatim>\<open>__torch_script_interface__\<close> attribute (what
  \<^verbatim>\<open>@torch.jit.interface\<close> leaves on a class) and one that does not; an installation whose
  collaborators all succeed and one whose code generation raises; and a process named
  \<^verbatim>\<open>worker0\<close> that reaches the first installation as \<^verbatim>\<open>worker1\<close> and the second as
  \<^verbatim>\<open>worker2\<close>.
\<close>

definition scriptable_iface :: iface where
  "scriptable_iface =
     \<lparr>iface_name = ''MyModuleInterface'',
      iface_attrs = [(''__torch_script_interface__'', PyBool True)]\<rparr>"

definition plain_iface :: iface where
  "plain_iface = \<lparr>iface_name = ''MyModule'', iface_attrs = []\<rparr>"

definition good_node :: node where
  "good_node =
     \<lparr>instantiate_remote_module_template =
        (\<lambda>n c f. Inr \<lparr>RemoteModule_attr =
                         \<lparr>cls_module_name = n, cls_methods = [''forward'', ''forward_async'']\<rparr>\<rparr>),
      get_return_type_from_callable = (\<lambda>mc. Inr plain_iface),
      call_creator = (\<lambda>mc a k. case mc of Creator n \<Rightarrow> Inr (Module n)),
      jit_script =
        (\<lambda>m. case m of Module n \<Rightarrow> Inr (ScriptModule n) | ScriptModule n \<Rightarrow> Inr (ScriptModule n))\<rparr>"

definition faulty_node :: node where
  "faulty_node =
     good_node\<lparr>instantiate_remote_module_template := (\<lambda>n c f. Inl ''TemplateGenerationError'')\<rparr>"

definition worker0_env :: env where
  "worker0_env =
     \<lparr>current_rpc_agent = Some \<lparr>worker_name = ''worker0''\<rparr>,
      self_node = good_node,
      rpc_route =
        (\<lambda>w. if w = ''worker1'' then Inr good_node
             else if w = ''worker2'' then Inr faulty_node
             else Inl ''RuntimeError'')\<rparr>"

definition no_rpc_env :: env where
  "no_rpc_env = worker0_env\<lparr>current_rpc_agent := None\<rparr>"

definition fresh_state :: state where
  "fresh_state = \<lparr>NEXT_LOCAL_ID = 0, trace = []\<rparr>"

text \<open>
  A schedule of two callers whose steps alternate: the second caller asks for the lock
  while the first holds it, and reads the counter after the first has released it.
\<close>

definition interleaved :: "nat list" where
  "interleaved = [0, 1, 0, 1, 0, 1, 0, 0, 1, 0, 1, 1, 1, 0, 1, 1, 1, 0]"

text \<open>The proxies two of the concrete runs below return.\<close>

definition scriptable_proxy :: remote_module where
  "scriptable_proxy =
     \<lparr>rm_cls = \<lparr>cls_module_name = ''_RemoteModule_worker0_0'',
                cls_methods = [''forward'', ''forward_async'']\<rparr>,
      rm_module_rref = RRef (ScriptModule ''f'') scriptable_iface,
      rm_is_scriptable = PyBool True\<rparr>"

definition plain_proxy :: remote_module where
  "plain_proxy =
     \<lparr>rm_cls = \<lparr>cls_module_name = ''_RemoteModule_worker0_0'',
                cls_methods = [''forward'', ''forward_async'']\<rparr>,
      rm_module_rref = UserRRef ''worker1'' (Creator ''f'') [] [],
      rm_is_scriptable = PyBool False\<rparr>"

section \<open>Properties\<close>

subsection \<open>The outcomes of a run\<close>

lemmas RemoteModule_unfold =
  RemoteModule_def is_current_rpc_agent_set_def get_current_rpc_agent_def
  gen_global_unique_name_def rpc_async_def rpc_sync_def remote_def wait_def
  instantiate_template_local_def log_event_def Let_def

lemmas vocabulary_defs =
  resolved_name_def counter_after_def resolved_iface_def capability_flag_def
  args_or_empty_def kwargs_or_empty_def creation_event_def creation_result_def

lemma RemoteModule_inactive:
  "current_rpc_agent e = None \<Longrightarrow>
   RemoteModule e to mc args kwargs gname icls s =
     (Inl (AssertionError ''RemoteModule only works in RPC.''), s)"
  by (simp add: RemoteModule_def is_current_rpc_agent_set_def)

lemma RemoteModule_iface_error:
  assumes "current_rpc_agent e = Some agent"
    and "resolved_iface e mc icls = Inl err"
  shows "RemoteModule e to mc args kwargs gname icls s =
    (Inl (Raised err), \<lparr>NEXT_LOCAL_ID = counter_after gname s, trace = trace s\<rparr>)"
  using assms unfolding RemoteModule_unfold vocabulary_defs
  by (cases gname) simp_all

lemma RemoteModule_route_error:
  assumes "current_rpc_agent e = Some agent"
    and "resolved_iface e mc icls = Inr cls"
    and "rpc_route e to = Inl err"
  shows "RemoteModule e to mc args kwargs gname icls s =
    (Inl (Raised err),
     \<lparr>NEXT_LOCAL_ID = counter_after gname s,
      trace = trace s @ [Rpc_async to (resolved_name agent gname s) cls (capability_flag cls)]\<rparr>)"
  using assms unfolding RemoteModule_unfold vocabulary_defs
  by (cases gname) simp_all

lemma RemoteModule_local_error:
  assumes "current_rpc_agent e = Some agent"
    and "resolved_iface e mc icls = Inr cls"
    and "rpc_route e to = Inr nd"
    and "instantiate_template (self_node e) (resolved_name agent gname s) cls (capability_flag cls)
           = Inl err"
  shows "RemoteModule e to mc args kwargs gname icls s =
    (Inl (Raised err),
     \<lparr>NEXT_LOCAL_ID = counter_after gname s,
      trace = trace s @ [Rpc_async to (resolved_name agent gname s) cls (capability_flag cls),
                         Instantiate_local (resolved_name agent gname s) cls (capability_flag cls)]\<rparr>)"
  using assms unfolding RemoteModule_unfold vocabulary_defs
  by (cases gname) simp_all

lemma RemoteModule_creation_error:
  assumes "current_rpc_agent e = Some agent"
    and "resolved_iface e mc icls = Inr cls"
    and "rpc_route e to = Inr nd"
    and "instantiate_template (self_node e) (resolved_name agent gname s) cls (capability_flag cls)
           = Inr c"
    and "creation_result nd to mc cls (args_or_empty args) (kwargs_or_empty kwargs) = Inl err"
  shows "RemoteModule e to mc args kwargs gname icls s =
    (Inl (Raised err),
     \<lparr>NEXT_LOCAL_ID = counter_after gname s,
      trace = trace s @ [Rpc_async to (resolved_name agent gname s) cls (capability_flag cls),
                         Instantiate_local (resolved_name agent gname s) cls (capability_flag cls),
                         creation_event to mc cls (args_or_empty args) (kwargs_or_empty kwargs)]\<rparr>)"
  using assms unfolding RemoteModule_unfold vocabulary_defs
  by (cases gname; cases "truthy (getattr cls ''__torch_script_interface__'' (PyBool False))") simp_all

lemma RemoteModule_wait_error:
  assumes "current_rpc_agent e = Some agent"
    and "resolved_iface e mc icls = Inr cls"
    and "rpc_route e to = Inr nd"
    and "instantiate_template (self_node e) (resolved_name agent gname s) cls (capability_flag cls)
           = Inr c"
    and "creation_result nd to mc cls (args_or_empty args) (kwargs_or_empty kwargs) = Inr h"
    and "instantiate_template nd (resolved_name agent gname s) cls (capability_flag cls) = Inl err"
  shows "RemoteModule e to mc args kwargs gname icls s =
    (Inl (Raised err),
     \<lparr>NEXT_LOCAL_ID = counter_after gname s,
      trace = trace s @ [Rpc_async to (resolved_name agent gname s) cls (capability_flag cls),
                         Instantiate_local (resolved_name agent gname s) cls (capability_flag cls),
                         creation_event to mc cls (args_or_empty args) (kwargs_or_empty kwargs),
                         Fut_wait]\<rparr>)"
  using assms unfolding RemoteModule_unfold vocabulary_defs
  by (cases gname; cases "truthy (getattr cls ''__torch_script_interface__'' (PyBool False))") simp_all

lemma RemoteModule_ok:
  assumes "current_rpc_agent e = Some agent"
    and "resolved_iface e mc icls = Inr cls"
    and "rpc_route e to = Inr nd"
    and "instantiate_template (self_node e) (resolved_name agent gname s) cls (capability_flag cls)
           = Inr c"
    and "creation_result nd to mc cls (args_or_empty args) (kwargs_or_empty kwargs) = Inr h"
    and "instantiate_template nd (resolved_name agent gname s) cls (capability_flag cls) = Inr t"
  shows "RemoteModule e to mc args kwargs gname icls s =
    (Inr (new_remote_module c h (capability_flag cls)),
     \<lparr>NEXT_LOCAL_ID = counter_after gname s,
      trace = trace s @ [Rpc_async to (resolved_name agent gname s) cls (capability_flag cls),
                         Instantiate_local (resolved_name agent gname s) cls (capability_flag cls),
                         creation_event to mc cls (args_or_empty args) (kwargs_or_empty kwargs),
                         Fut_wait]\<rparr>)"
  using assms unfolding RemoteModule_unfold vocabulary_defs
  by (cases gname; cases "truthy (getattr cls ''__torch_script_interface__'' (PyBool False))") simp_all

text \<open>A run with an agent set ends in exactly one of six ways.\<close>

lemma RemoteModule_cases [consumes 1, case_names iface_error route_error local_error
    creation_error wait_error ok]:
  assumes agent: "current_rpc_agent e = Some agent"
  obtains
    err where
      "resolved_iface e mc icls = Inl err"
      "RemoteModule e to mc args kwargs gname icls s =
         (Inl (Raised err), \<lparr>NEXT_LOCAL_ID = counter_after gname s, trace = trace s\<rparr>)"
  | cls err where
      "resolved_iface e mc icls = Inr cls"
      "rpc_route e to = Inl err"
      "RemoteModule e to mc args kwargs gname icls s =
         (Inl (Raised err),
          \<lparr>NEXT_LOCAL_ID = counter_after gname s,
           trace = trace s @ [Rpc_async to (resolved_name agent gname s) cls (capability_flag cls)]\<rparr>)"
  | cls nd err where
      "resolved_iface e mc icls = Inr cls"
      "rpc_route e to = Inr nd"
      "instantiate_template (self_node e) (resolved_name agent gname s) cls (capability_flag cls)
         = Inl err"
      "RemoteModule e to mc args kwargs gname icls s =
         (Inl (Raised err),
          \<lparr>NEXT_LOCAL_ID = counter_after gname s,
           trace = trace s @
             [Rpc_async to (resolved_name agent gname s) cls (capability_flag cls),
              Instantiate_local (resolved_name agent gname s) cls (capability_flag cls)]\<rparr>)"
  | cls nd c err where
      "resolved_iface e mc icls = Inr cls"
      "rpc_route e to = Inr nd"
      "instantiate_template (self_node e) (resolved_name agent gname s) cls (capability_flag cls)
         = Inr c"
      "creation_result nd to mc cls (args_or_empty args) (kwargs_or_empty kwargs) = Inl err"
      "RemoteModule e to mc args kwargs gname icls s =
         (Inl (Raised err),
          \<lparr>NEXT_LOCAL_ID = counter_after gname s,
           trace = trace s @
             [Rpc_async to (resolved_name agent gname s) cls (capability_flag cls),
              Instantiate_local (resolved_name agent gname s) cls (capability_flag cls),
              creation_event to mc cls (args_or_empty args) (kwargs_or_empty kwargs)]\<rparr>)"
  | cls nd c h err where
      "resolved_iface e mc icls = Inr cls"
      "rpc_route e to = Inr nd"
      "instantiate_template (self_node e) (resolved_name agent gname s) cls (capability_flag cls)
         = Inr c"
      "creation_result nd to mc cls (args_or_empty args) (kwargs_or_empty kwargs) = Inr h"
      "instantiate_template nd (resolved_name agent gname s) cls (capability_flag cls) = Inl err"
      "RemoteModule e to mc args kwargs gname icls s =
         (Inl (Raised err),
          \<lparr>NEXT_LOCAL_ID = counter_after gname s,
           trace = trace s @
             [Rpc_async to (resolved_name agent gname s) cls (capability_flag cls),
              Instantiate_local (resolved_name agent gname s) cls (capability_flag cls),
              creation_event to mc cls (args_or_empty args) (kwargs_or_empty kwargs),
              Fut_wait]\<rparr>)"
  | cls nd c h t where
      "resolved_iface e mc icls = Inr cls"
      "rpc_route e to = Inr nd"
      "instantiate_template (self_node e) (resolved_name agent gname s) cls (capability_flag cls)
         = Inr c"
      "creation_result nd to mc cls (args_or_empty args) (kwargs_or_empty kwargs) = Inr h"
      "instantiate_template nd (resolved_name agent gname s) cls (capability_flag cls) = Inr t"
      "RemoteModule e to mc args kwargs gname icls s =
         (Inr (new_remote_module c h (capability_flag cls)),
          \<lparr>NEXT_LOCAL_ID = counter_after gname s,
           trace = trace s @
             [Rpc_async to (resolved_name agent gname s) cls (capability_flag cls),
              Instantiate_local (resolved_name agent gname s) cls (capability_flag cls),
              creation_event to mc cls (args_or_empty args) (kwargs_or_empty kwargs),
              Fut_wait]\<rparr>)"
proof (cases "resolved_iface e mc icls")
  case (Inl err)
  then show ?thesis
    using RemoteModule_iface_error [OF agent] that(1) by blast
next
  case cls: (Inr cls)
  show ?thesis
  proof (cases "rpc_route e to")
    case (Inl err)
    then show ?thesis
      using RemoteModule_route_error [OF agent cls] that(2) cls by blast
  next
    case nd: (Inr nd)
    show ?thesis
    proof (cases "instantiate_template (self_node e) (resolved_name agent gname s) cls
                    (capability_flag cls)")
      case (Inl err)
      then show ?thesis
        using RemoteModule_local_error [OF agent cls nd] that(3) cls nd by blast
    next
      case c: (Inr c)
      show ?thesis
      proof (cases "creation_result nd to mc cls (args_or_empty args) (kwargs_or_empty kwargs)")
        case (Inl err)
        then show ?thesis
          using RemoteModule_creation_error [OF agent cls nd c] that(4) cls nd c by blast
      next
        case h: (Inr h)
        show ?thesis
        proof (cases "instantiate_template nd (resolved_name agent gname s) cls
                        (capability_flag cls)")
          case (Inl err)
          then show ?thesis
            using RemoteModule_wait_error [OF agent cls nd c h] that(5) cls nd c h by blast
        next
          case (Inr t)
          then show ?thesis
            using RemoteModule_ok [OF agent cls nd c h] that(6) cls nd c h by blast
        qed
      qed
    qed
  qed
qed

lemmas example_defs =
  worker0_env_def no_rpc_env_def good_node_def faulty_node_def fresh_state_def
  scriptable_iface_def plain_iface_def

subsection \<open>The precondition\<close>

text \<open>
  Claim C2. When no RPC agent is set, \<^verbatim>\<open>RemoteModule\<close> fails with the assertion error of
  line 64 and hands the state back as it found it: the counter is untouched and nothing
  was logged, so no \<^verbatim>\<open>rpc_async\<close>, \<^verbatim>\<open>rpc_sync\<close> or \<^verbatim>\<open>remote\<close> call was attempted. When an
  agent is set, the assertion never fails: whatever exception leaves the function is one
  a collaborator raised.
\<close>

theorem RemoteModule_precondition_check:
  "(\<not> is_current_rpc_agent_set e \<longrightarrow>
      RemoteModule e to mc args kwargs gname icls s =
        (Inl (AssertionError ''RemoteModule only works in RPC.''), s)
      \<and> filter is_network_call
            (events_of_run s (snd (RemoteModule e to mc args kwargs gname icls s))) = [])
   \<and> (is_current_rpc_agent_set e \<longrightarrow>
      (\<forall>msg. fst (RemoteModule e to mc args kwargs gname icls s) \<noteq> Inl (AssertionError msg)))"
proof (intro conjI impI allI)
  assume "\<not> is_current_rpc_agent_set e"
  then have none: "current_rpc_agent e = None"
    by (simp add: is_current_rpc_agent_set_def)
  then show "RemoteModule e to mc args kwargs gname icls s =
      (Inl (AssertionError ''RemoteModule only works in RPC.''), s)"
    by (rule RemoteModule_inactive)
  from none show "filter is_network_call
      (events_of_run s (snd (RemoteModule e to mc args kwargs gname icls s))) = []"
    by (simp add: RemoteModule_inactive events_of_run_def)
next
  fix msg
  assume "is_current_rpc_agent_set e"
  then obtain agent where agent: "current_rpc_agent e = Some agent"
    by (auto simp: is_current_rpc_agent_set_def)
  show "fst (RemoteModule e to mc args kwargs gname icls s) \<noteq> Inl (AssertionError msg)"
    by (cases rule: RemoteModule_cases [OF agent, where mc = mc and icls = icls and to = to
          and gname = gname and s = s and args = args and kwargs = kwargs]) simp_all
qed

theorem RemoteModule_precondition_check_witness:
  "\<not> is_current_rpc_agent_set no_rpc_env
   \<and> RemoteModule no_rpc_env ''worker1'' (Creator ''f'') None None None None fresh_state =
       (Inl (AssertionError ''RemoteModule only works in RPC.''), fresh_state)
   \<and> filter is_network_call
        (events_of_run fresh_state
          (snd (RemoteModule no_rpc_env ''worker1'' (Creator ''f'') None None None None
                  fresh_state))) = []
   \<and> is_current_rpc_agent_set worker0_env
   \<and> fst (RemoteModule worker0_env ''worker1'' (Creator ''f'') None None None None fresh_state) \<noteq>
       Inl (AssertionError ''RemoteModule only works in RPC.'')"
proof -
  have inactive: "\<not> is_current_rpc_agent_set no_rpc_env"
    by (simp add: is_current_rpc_agent_set_def no_rpc_env_def)
  have active: "is_current_rpc_agent_set worker0_env"
    by (simp add: is_current_rpc_agent_set_def worker0_env_def)
  note without = RemoteModule_precondition_check
      [where e = no_rpc_env and to = "''worker1''" and mc = "Creator ''f''" and args = None
         and kwargs = None and gname = None and icls = None and s = fresh_state,
       THEN conjunct1, THEN mp, OF inactive]
  note with_agent = RemoteModule_precondition_check
      [where e = worker0_env and to = "''worker1''" and mc = "Creator ''f''" and args = None
         and kwargs = None and gname = None and icls = None and s = fresh_state,
       THEN conjunct2, THEN mp, OF active, THEN spec]
  from inactive without [THEN conjunct1] without [THEN conjunct2] active with_agent
  show ?thesis
    by (intro conjI)
qed

subsection \<open>Concrete runs\<close>

lemma RemoteModule_agent_of_success:
  assumes "RemoteModule e to mc args kwargs gname icls s = (Inr p, s')"
  obtains agent where "current_rpc_agent e = Some agent"
  using assms RemoteModule_inactive [of e to mc args kwargs gname icls s]
  by (cases "current_rpc_agent e") simp_all

lemma str_int_0: "str_int 0 = ''0''"
  by code_simp

lemmas run_defs =
  RemoteModule_unfold example_defs str_int_0 getattr_def instantiate_template_def
  generated_module_name_def script_module_creator_wrapper_def new_remote_module_def

lemma run_scriptable:
  "RemoteModule worker0_env ''worker1'' (Creator ''f'') None None None (Some scriptable_iface)
     fresh_state =
   (Inr scriptable_proxy,
    \<lparr>NEXT_LOCAL_ID = 1,
     trace = [Rpc_async ''worker1'' ''worker0_0'' scriptable_iface (PyBool True),
              Instantiate_local ''worker0_0'' scriptable_iface (PyBool True),
              Rpc_sync ''worker1'' (Creator ''f'') scriptable_iface [] [],
              Fut_wait]\<rparr>)"
  by (simp add: run_defs scriptable_proxy_def)

lemma run_plain:
  "RemoteModule worker0_env ''worker1'' (Creator ''f'') None None None None fresh_state =
   (Inr plain_proxy,
    \<lparr>NEXT_LOCAL_ID = 1,
     trace = [Rpc_async ''worker1'' ''worker0_0'' plain_iface (PyBool False),
              Instantiate_local ''worker0_0'' plain_iface (PyBool False),
              Rpc_remote ''worker1'' (Creator ''f'') [] [],
              Fut_wait]\<rparr>)"
  by (simp add: run_defs plain_proxy_def)

lemma run_faulty:
  "RemoteModule worker0_env ''worker2'' (Creator ''f'') (Some [PyInt 3]) None (Some ''m'')
     (Some scriptable_iface) fresh_state =
   (Inl (Raised ''TemplateGenerationError''),
    \<lparr>NEXT_LOCAL_ID = 0,
     trace = [Rpc_async ''worker2'' ''m'' scriptable_iface (PyBool True),
              Instantiate_local ''m'' scriptable_iface (PyBool True),
              Rpc_sync ''worker2'' (Creator ''f'') scriptable_iface [PyInt 3] [],
              Fut_wait]\<rparr>)"
  by (simp add: run_defs)

lemma worker0_agent:
  "current_rpc_agent worker0_env = Some \<lparr>worker_name = ''worker0''\<rparr>"
  by (simp add: worker0_env_def)

subsection \<open>Ordering of the return\<close>

text \<open>
  Claim C1. Whenever \<^verbatim>\<open>RemoteModule\<close> returns a proxy, the run has logged, in this order, the
  asynchronous template request, the local instantiation, the creation request and the
  wait on the future, and nothing after the wait; the future of the template request
  resolved with a value (the remote template instantiation succeeded), and the creation
  request yielded the reference handle that the proxy holds.
\<close>

theorem RemoteModule_returns_after_remote_effects:
  assumes run: "RemoteModule e to mc args kwargs gname icls s = (Inr proxy, s')"
  shows "\<exists>nd name cls tmpl.
      rpc_route e to = Inr nd
    \<and> trace s' = trace s @
          [Rpc_async to name cls (capability_flag cls),
           Instantiate_local name cls (capability_flag cls),
           creation_event to mc cls (args_or_empty args) (kwargs_or_empty kwargs),
           Fut_wait]
    \<and> instantiate_template nd name cls (capability_flag cls) = Inr tmpl
    \<and> creation_result nd to mc cls (args_or_empty args) (kwargs_or_empty kwargs) =
        Inr (rm_module_rref proxy)"
proof -
  obtain agent where agent: "current_rpc_agent e = Some agent"
    using run by (rule RemoteModule_agent_of_success)
  from agent show ?thesis
  proof (cases rule: RemoteModule_cases [where mc = mc and icls = icls and to = to
          and gname = gname and s = s and args = args and kwargs = kwargs])
    case (ok cls nd c h t)
    from ok(6) run have "proxy = new_remote_module c h (capability_flag cls)"
      and "trace s' = trace s @
          [Rpc_async to (resolved_name agent gname s) cls (capability_flag cls),
           Instantiate_local (resolved_name agent gname s) cls (capability_flag cls),
           creation_event to mc cls (args_or_empty args) (kwargs_or_empty kwargs),
           Fut_wait]"
      by auto
    with ok(2,4,5) show ?thesis
      by (auto simp: new_remote_module_def)
  qed (use run in simp_all)
qed

theorem RemoteModule_returns_after_remote_effects_witness:
  "fst (RemoteModule worker0_env ''worker1'' (Creator ''f'') None None None
          (Some scriptable_iface) fresh_state) = Inr scriptable_proxy
   \<and> (\<exists>nd name cls tmpl.
      rpc_route worker0_env ''worker1'' = Inr nd
    \<and> [Rpc_async ''worker1'' ''worker0_0'' scriptable_iface (PyBool True),
        Instantiate_local ''worker0_0'' scriptable_iface (PyBool True),
        Rpc_sync ''worker1'' (Creator ''f'') scriptable_iface [] [],
        Fut_wait] =
       trace fresh_state @
          [Rpc_async ''worker1'' name cls (capability_flag cls),
           Instantiate_local name cls (capability_flag cls),
           creation_event ''worker1'' (Creator ''f'') cls (args_or_empty None) (kwargs_or_empty None),
           Fut_wait]
    \<and> instantiate_template nd name cls (capability_flag cls) = Inr tmpl
    \<and> creation_result nd ''worker1'' (Creator ''f'') cls (args_or_empty None) (kwargs_or_empty None) =
        Inr (rm_module_rref scriptable_proxy))"
  using RemoteModule_returns_after_remote_effects [OF run_scriptable] run_scriptable
  by simp

subsection \<open>Failure of the remote template instantiation\<close>

text \<open>
  Claim C3. Suppose the future of the template request was issued (an agent is set, the
  interface class is resolved, the worker is reached) and resolves with an error. Then
  \<^verbatim>\<open>RemoteModule\<close> never returns a proxy. If moreover the local instantiation and the
  remote object creation both succeeded, the exception that leaves \<^verbatim>\<open>RemoteModule\<close> is
  that very error, raised by the wait after the creation request was made; the log ends
  with the wait, so nothing was done about the object already created.
\<close>

theorem RemoteModule_remote_template_error:
  assumes agent: "current_rpc_agent e = Some agent"
    and cls: "resolved_iface e mc icls = Inr cls"
    and nd: "rpc_route e to = Inr nd"
    and fails: "instantiate_template nd (resolved_name agent gname s) cls (capability_flag cls)
                  = Inl err"
  shows "(\<forall>p. fst (RemoteModule e to mc args kwargs gname icls s) \<noteq> Inr p)
    \<and> (\<forall>c h.
          instantiate_template (self_node e) (resolved_name agent gname s) cls (capability_flag cls)
            = Inr c \<longrightarrow>
          creation_result nd to mc cls (args_or_empty args) (kwargs_or_empty kwargs) = Inr h \<longrightarrow>
          RemoteModule e to mc args kwargs gname icls s =
            (Inl (Raised err),
             \<lparr>NEXT_LOCAL_ID = counter_after gname s,
              trace = trace s @
                [Rpc_async to (resolved_name agent gname s) cls (capability_flag cls),
                 Instantiate_local (resolved_name agent gname s) cls (capability_flag cls),
                 creation_event to mc cls (args_or_empty args) (kwargs_or_empty kwargs),
                 Fut_wait]\<rparr>))"
proof (intro conjI allI impI)
  fix p
  from agent show "fst (RemoteModule e to mc args kwargs gname icls s) \<noteq> Inr p"
    by (cases rule: RemoteModule_cases [where mc = mc and icls = icls and to = to
          and gname = gname and s = s and args = args and kwargs = kwargs])
       (use cls nd fails in simp_all)
next
  fix c h
  assume "instantiate_template (self_node e) (resolved_name agent gname s) cls (capability_flag cls)
            = Inr c"
    and "creation_result nd to mc cls (args_or_empty args) (kwargs_or_empty kwargs) = Inr h"
  then show "RemoteModule e to mc args kwargs gname icls s =
            (Inl (Raised err),
             \<lparr>NEXT_LOCAL_ID = counter_after gname s,
              trace = trace s @
                [Rpc_async to (resolved_name agent gname s) cls (capability_flag cls),
                 Instantiate_local (resolved_name agent gname s) cls (capability_flag cls),
                 creation_event to mc cls (args_or_empty args) (kwargs_or_empty kwargs),
                 Fut_wait]\<rparr>)"
    using RemoteModule_wait_error [OF agent cls nd _ _ fails] by blast
qed

theorem RemoteModule_remote_template_error_witness:
  "current_rpc_agent worker0_env = Some \<lparr>worker_name = ''worker0''\<rparr>
   \<and> resolved_iface worker0_env (Creator ''f'') (Some scriptable_iface) = Inr scriptable_iface
   \<and> rpc_route worker0_env ''worker2'' = Inr faulty_node
   \<and> instantiate_template faulty_node ''m'' scriptable_iface (PyBool True)
        = Inl ''TemplateGenerationError''
   \<and> instantiate_template good_node ''m'' scriptable_iface (PyBool True)
        = Inr \<lparr>cls_module_name = ''_RemoteModule_m'', cls_methods = [''forward'', ''forward_async'']\<rparr>
   \<and> creation_result faulty_node ''worker2'' (Creator ''f'') scriptable_iface [PyInt 3] []
        = Inr (RRef (ScriptModule ''f'') scriptable_iface)
   \<and> RemoteModule worker0_env ''worker2'' (Creator ''f'') (Some [PyInt 3]) None (Some ''m'')
        (Some scriptable_iface) fresh_state =
       (Inl (Raised ''TemplateGenerationError''),
        \<lparr>NEXT_LOCAL_ID = 0,
         trace = [Rpc_async ''worker2'' ''m'' scriptable_iface (PyBool True),
                  Instantiate_local ''m'' scriptable_iface (PyBool True),
                  Rpc_sync ''worker2'' (Creator ''f'') scriptable_iface [PyInt 3] [],
                  Fut_wait]\<rparr>)"
proof -
  let ?agent = "\<lparr>worker_name = ''worker0''\<rparr>"
  have cls: "resolved_iface worker0_env (Creator ''f'') (Some scriptable_iface) = Inr scriptable_iface"
    by (simp add: resolved_iface_def)
  have nd: "rpc_route worker0_env ''worker2'' = Inr faulty_node"
    by (simp add: worker0_env_def)
  have flag: "capability_flag scriptable_iface = PyBool True"
    by (simp add: capability_flag_def getattr_def scriptable_iface_def)
  have name: "resolved_name ?agent (Some ''m'') fresh_state = ''m''"
    by (simp add: resolved_name_def)
  have fails: "instantiate_template faulty_node (resolved_name ?agent (Some ''m'') fresh_state)
      scriptable_iface (capability_flag scriptable_iface) = Inl ''TemplateGenerationError''"
    by (simp add: name flag instantiate_template_def faulty_node_def good_node_def)
  have local: "instantiate_template (self_node worker0_env)
      (resolved_name ?agent (Some ''m'') fresh_state) scriptable_iface
      (capability_flag scriptable_iface) =
      Inr \<lparr>cls_module_name = ''_RemoteModule_m'', cls_methods = [''forward'', ''forward_async'']\<rparr>"
    by (simp add: name flag instantiate_template_def generated_module_name_def worker0_env_def
          good_node_def)
  have created: "creation_result faulty_node ''worker2'' (Creator ''f'') scriptable_iface
      (args_or_empty (Some [PyInt 3])) (kwargs_or_empty None) =
      Inr (RRef (ScriptModule ''f'') scriptable_iface)"
    by (simp add: creation_result_def flag args_or_empty_def kwargs_or_empty_def
          script_module_creator_wrapper_def faulty_node_def good_node_def)
  have self: "self_node worker0_env = good_node"
    by (simp add: worker0_env_def)
  have start: "counter_after (Some ''m'') fresh_state = 0" "trace fresh_state = []"
    by (simp_all add: counter_after_def fresh_state_def)
  from RemoteModule_remote_template_error [OF worker0_agent cls nd fails,
      of "Some [PyInt 3]" None] local created
  show ?thesis
    using cls nd fails
    by (simp add: name flag self start creation_event_def args_or_empty_def
          kwargs_or_empty_def worker0_agent)
qed

subsection \<open>Facts about the log and the concrete installation\<close>

lemma events_of_run_append [simp]:
  "events_of_run s \<lparr>NEXT_LOCAL_ID = i, trace = trace s @ evs\<rparr> = evs"
  by (simp add: events_of_run_def)

lemma events_of_run_same [simp]:
  "events_of_run s \<lparr>NEXT_LOCAL_ID = i, trace = trace s\<rparr> = []"
  by (simp add: events_of_run_def)

lemma script_module_creator_wrapper_Inr:
  "script_module_creator_wrapper nd mc cls a k = Inr h \<Longrightarrow>
   \<exists>m. call_creator nd mc a k = Inr m \<and> (\<exists>sm. jit_script nd m = Inr sm \<and> h = RRef sm cls)"
  by (auto simp: script_module_creator_wrapper_def split: sum.splits)

lemma worker0_self: "self_node worker0_env = good_node"
  by (simp add: worker0_env_def)

lemma worker0_route1: "rpc_route worker0_env ''worker1'' = Inr good_node"
  by (simp add: worker0_env_def)


lemma flag_plain: "capability_flag plain_iface = PyBool False"
  by (simp add: capability_flag_def getattr_def plain_iface_def)

lemma resolved_iface_given: "resolved_iface e mc (Some c) = Inr c"
  by (simp add: resolved_iface_def)

lemma resolved_iface_inferred: "resolved_iface worker0_env mc None = Inr plain_iface"
  by (simp add: resolved_iface_def worker0_env_def good_node_def)

lemma resolved_name_fresh:
  "resolved_name \<lparr>worker_name = ''worker0''\<rparr> None fresh_state = ''worker0_0''"
  by (simp add: resolved_name_def fresh_state_def str_int_0)

lemma good_node_instantiate:
  "instantiate_template good_node n c f =
     Inr \<lparr>cls_module_name = ''_RemoteModule_'' @ n, cls_methods = [''forward'', ''forward_async'']\<rparr>"
  by (simp add: instantiate_template_def generated_module_name_def good_node_def)

subsection \<open>Dispatch on the capability flag\<close>



subsection \<open>The name of a construction\<close>

text \<open>
  Claim C6. With an agent set and the interface class resolved, the first thing a run
  does is the template request, and the name it carries is the caller's
  \<^verbatim>\<open>global_unique_name\<close> when one is given (the counter is then left alone), and otherwise
  the result of \<^verbatim>\<open>_gen_global_unique_name\<close>: the worker's own name, an underscore and the
  decimal form of the counter as it was before the call, which leaves the counter
  incremented by one.
\<close>

theorem RemoteModule_name_resolution:
  assumes agent: "current_rpc_agent e = Some agent"
    and cls: "resolved_iface e mc icls = Inr cls"
  shows "(\<forall>n. gname = Some n \<longrightarrow>
          (\<exists>rest. events_of_run s (snd (RemoteModule e to mc args kwargs gname icls s)) =
                    Rpc_async to n cls (capability_flag cls) # rest)
        \<and> NEXT_LOCAL_ID (snd (RemoteModule e to mc args kwargs gname icls s)) = NEXT_LOCAL_ID s)
    \<and> (gname = None \<longrightarrow>
          (\<exists>rest. events_of_run s (snd (RemoteModule e to mc args kwargs gname icls s)) =
                    Rpc_async to (worker_name agent @ ''_'' @ str_int (NEXT_LOCAL_ID s)) cls
                      (capability_flag cls) # rest)
        \<and> gen_global_unique_name e s =
            (Inr (worker_name agent @ ''_'' @ str_int (NEXT_LOCAL_ID s)),
             s\<lparr>NEXT_LOCAL_ID := NEXT_LOCAL_ID s + 1\<rparr>)
        \<and> NEXT_LOCAL_ID (snd (RemoteModule e to mc args kwargs gname icls s)) =
            NEXT_LOCAL_ID s + 1)"
proof -
  have gen: "gen_global_unique_name e s =
      (Inr (worker_name agent @ ''_'' @ str_int (NEXT_LOCAL_ID s)),
       s\<lparr>NEXT_LOCAL_ID := NEXT_LOCAL_ID s + 1\<rparr>)"
    using agent by (simp add: gen_global_unique_name_def get_current_rpc_agent_def)
  from agent have "(\<exists>rest. events_of_run s (snd (RemoteModule e to mc args kwargs gname icls s)) =
        Rpc_async to (resolved_name agent gname s) cls (capability_flag cls) # rest)
      \<and> NEXT_LOCAL_ID (snd (RemoteModule e to mc args kwargs gname icls s)) =
          counter_after gname s"
    by (cases rule: RemoteModule_cases [where mc = mc and icls = icls and to = to
          and gname = gname and s = s and args = args and kwargs = kwargs])
       (use cls in simp_all)
  with gen show ?thesis
    by (cases gname) (simp_all add: resolved_name_def counter_after_def)
qed

theorem RemoteModule_name_resolution_witness:
  "(\<exists>rest. events_of_run fresh_state
       (snd (RemoteModule worker0_env ''worker1'' (Creator ''f'') None None (Some ''m'')
               (Some plain_iface) fresh_state)) =
       Rpc_async ''worker1'' ''m'' plain_iface (PyBool False) # rest)
   \<and> NEXT_LOCAL_ID
        (snd (RemoteModule worker0_env ''worker1'' (Creator ''f'') None None (Some ''m'')
                (Some plain_iface) fresh_state)) = 0
   \<and> (\<exists>rest. events_of_run fresh_state
       (snd (RemoteModule worker0_env ''worker1'' (Creator ''f'') None None None
               (Some plain_iface) fresh_state)) =
       Rpc_async ''worker1'' ''worker0_0'' plain_iface (PyBool False) # rest)
   \<and> gen_global_unique_name worker0_env fresh_state =
       (Inr ''worker0_0'', \<lparr>NEXT_LOCAL_ID = 1, trace = []\<rparr>)
   \<and> NEXT_LOCAL_ID
        (snd (RemoteModule worker0_env ''worker1'' (Creator ''f'') None None None
                (Some plain_iface) fresh_state)) = 1"
  using RemoteModule_name_resolution
          [OF worker0_agent resolved_iface_given,
           where gname = "Some ''m''" and s = fresh_state and to = "''worker1''"
             and mc = "Creator ''f''" and args = None and kwargs = None and cls = plain_iface]
        RemoteModule_name_resolution
          [OF worker0_agent resolved_iface_given,
           where gname = None and s = fresh_state and to = "''worker1''"
             and mc = "Creator ''f''" and args = None and kwargs = None and cls = plain_iface]
  by (simp add: flag_plain fresh_state_def str_int_0)

subsection \<open>Both sides instantiate the same template\<close>


lemma creation_event_not_local [simp]:
  "creation_event to mc cls a k \<noteq> Instantiate_local n c f"
  "Instantiate_local n c f \<noteq> creation_event to mc cls a k"
  by (simp_all add: creation_event_def)





subsection \<open>Construction arguments left out\<close>

lemma RemoteModule_args_None:
  "RemoteModule e to mc None kwargs gname icls s =
   RemoteModule e to mc (Some []) kwargs gname icls s"
  by (simp only: RemoteModule_def option.case)

lemma RemoteModule_kwargs_None:
  "RemoteModule e to mc args None gname icls s =
   RemoteModule e to mc args (Some []) gname icls s"
  by (simp only: RemoteModule_def option.case)

lemma RemoteModule_creation_requests:
  assumes "ev \<in> set (events_of_run s (snd (RemoteModule e to mc args kwargs gname icls s)))"
    and "is_creation_request ev"
  shows "(\<exists>cls. ev = Rpc_sync to mc cls (args_or_empty args) (kwargs_or_empty kwargs))
       \<or> ev = Rpc_remote to mc (args_or_empty args) (kwargs_or_empty kwargs)"
proof (cases "current_rpc_agent e")
  case None
  with assms show ?thesis
    by (simp add: RemoteModule_inactive events_of_run_def)
next
  case (Some agent)
  then show ?thesis
  proof (cases rule: RemoteModule_cases [where mc = mc and icls = icls and to = to
            and gname = gname and s = s and args = args and kwargs = kwargs])
    case (iface_error err)
    with assms show ?thesis by simp
  next
    case (route_error cls err)
    with assms show ?thesis by auto
  next
    case (local_error cls nd err)
    with assms show ?thesis by auto
  next
    case (creation_error cls nd c err)
    with assms show ?thesis by (auto simp: creation_event_def split: if_splits)
  next
    case (wait_error cls nd c h err)
    with assms show ?thesis by (auto simp: creation_event_def split: if_splits)
  next
    case (ok cls nd c h t)
    with assms show ?thesis by (auto simp: creation_event_def split: if_splits)
  qed
qed

lemma RemoteModule_success_elim:
  assumes ok: "fst (RemoteModule e to mc args kwargs gname icls s) = Inr p"
  obtains agent cls nd c h t where
    "current_rpc_agent e = Some agent"
    "resolved_iface e mc icls = Inr cls"
    "rpc_route e to = Inr nd"
    "instantiate_template (self_node e) (resolved_name agent gname s) cls (capability_flag cls)
       = Inr c"
    "creation_result nd to mc cls (args_or_empty args) (kwargs_or_empty kwargs) = Inr h"
    "instantiate_template nd (resolved_name agent gname s) cls (capability_flag cls) = Inr t"
    "p = new_remote_module c h (capability_flag cls)"
proof -
  obtain s' where run: "RemoteModule e to mc args kwargs gname icls s = (Inr p, s')"
    using ok by (cases "RemoteModule e to mc args kwargs gname icls s") simp
  obtain agent where agent: "current_rpc_agent e = Some agent"
    using run by (rule RemoteModule_agent_of_success)
  from agent show ?thesis
  proof (cases rule: RemoteModule_cases [where mc = mc and icls = icls and to = to
          and gname = gname and s = s and args = args and kwargs = kwargs])
    case (ok cls nd c h t)
    from ok(6) run have "p = new_remote_module c h (capability_flag cls)"
      by simp
    with agent ok(1-5) that show ?thesis
      by blast
  qed (use run in simp_all)
qed

lemma RemoteModule_handle_of_success:
  assumes ok: "fst (RemoteModule e to mc args kwargs gname icls s) = Inr p"
  shows "\<exists>nd. rpc_route e to = Inr nd
    \<and> ((\<exists>m sm cls. call_creator nd mc (args_or_empty args) (kwargs_or_empty kwargs) = Inr m
                  \<and> jit_script nd m = Inr sm \<and> rm_module_rref p = RRef sm cls)
       \<or> rm_module_rref p = UserRRef to mc (args_or_empty args) (kwargs_or_empty kwargs))"
  using ok
proof (rule RemoteModule_success_elim)
  fix agent cls nd c h t
  assume nd: "rpc_route e to = Inr nd"
    and h: "creation_result nd to mc cls (args_or_empty args) (kwargs_or_empty kwargs) = Inr h"
    and p: "p = new_remote_module c h (capability_flag cls)"
  from p have rref: "rm_module_rref p = h"
    by (simp add: new_remote_module_def)
  show ?thesis
  proof (cases "truthy (capability_flag cls)")
    case True
    with h have "script_module_creator_wrapper nd mc cls (args_or_empty args)
        (kwargs_or_empty kwargs) = Inr h"
      by (simp add: creation_result_def)
    from script_module_creator_wrapper_Inr [OF this] nd rref show ?thesis
      by blast
  next
    case False
    with h nd rref show ?thesis
      by (auto simp: creation_result_def)
  qed
qed

text \<open>
  Claim C9. Leaving \<^verbatim>\<open>args\<close> out is the same as passing the empty tuple and leaving
  \<^verbatim>\<open>kwargs\<close> out is the same as passing the empty dict: the run is the same in result and
  in state. Every creation request of a run carries the creator with these normalised
  collections, and the handle of a returned proxy comes from the creator called with
  them: either the scripted result of that call on the worker, or the pending call that
  \<^verbatim>\<open>rpc.remote\<close> was given.
\<close>

theorem RemoteModule_default_arguments:
  "RemoteModule e to mc None kwargs gname icls s =
     RemoteModule e to mc (Some []) kwargs gname icls s
   \<and> RemoteModule e to mc args None gname icls s =
     RemoteModule e to mc args (Some []) gname icls s
   \<and> args_or_empty None = [] \<and> kwargs_or_empty None = []
   \<and> (\<forall>a. args_or_empty (Some a) = a) \<and> (\<forall>k. kwargs_or_empty (Some k) = k)
   \<and> (\<forall>ev \<in> set (events_of_run s (snd (RemoteModule e to mc args kwargs gname icls s))).
        is_creation_request ev \<longrightarrow>
        (\<exists>cls. ev = Rpc_sync to mc cls (args_or_empty args) (kwargs_or_empty kwargs))
        \<or> ev = Rpc_remote to mc (args_or_empty args) (kwargs_or_empty kwargs))
   \<and> (\<forall>p. fst (RemoteModule e to mc args kwargs gname icls s) = Inr p \<longrightarrow>
        (\<exists>nd. rpc_route e to = Inr nd
          \<and> ((\<exists>m sm cls. call_creator nd mc (args_or_empty args) (kwargs_or_empty kwargs) = Inr m
                        \<and> jit_script nd m = Inr sm \<and> rm_module_rref p = RRef sm cls)
             \<or> rm_module_rref p = UserRRef to mc (args_or_empty args) (kwargs_or_empty kwargs))))"
proof (intro conjI ballI allI impI)
  show "RemoteModule e to mc None kwargs gname icls s =
     RemoteModule e to mc (Some []) kwargs gname icls s"
    by (rule RemoteModule_args_None)
  show "RemoteModule e to mc args None gname icls s =
     RemoteModule e to mc args (Some []) gname icls s"
    by (rule RemoteModule_kwargs_None)
  show "args_or_empty None = []" "kwargs_or_empty None = []"
    by (simp_all add: args_or_empty_def kwargs_or_empty_def)
  show "args_or_empty (Some a) = a" for a
    by (simp add: args_or_empty_def)
  show "kwargs_or_empty (Some k) = k" for k
    by (simp add: kwargs_or_empty_def)
next
  fix ev
  assume "ev \<in> set (events_of_run s (snd (RemoteModule e to mc args kwargs gname icls s)))"
    and "is_creation_request ev"
  then show "(\<exists>cls. ev = Rpc_sync to mc cls (args_or_empty args) (kwargs_or_empty kwargs))
        \<or> ev = Rpc_remote to mc (args_or_empty args) (kwargs_or_empty kwargs)"
    by (rule RemoteModule_creation_requests)
next
  fix p
  assume "fst (RemoteModule e to mc args kwargs gname icls s) = Inr p"
  then show "\<exists>nd. rpc_route e to = Inr nd
          \<and> ((\<exists>m sm cls. call_creator nd mc (args_or_empty args) (kwargs_or_empty kwargs) = Inr m
                        \<and> jit_script nd m = Inr sm \<and> rm_module_rref p = RRef sm cls)
             \<or> rm_module_rref p = UserRRef to mc (args_or_empty args) (kwargs_or_empty kwargs))"
    by (rule RemoteModule_handle_of_success)
qed

theorem RemoteModule_default_arguments_witness:
  "Rpc_remote ''worker1'' (Creator ''f'') [] [] \<in>
     set (events_of_run fresh_state
           (snd (RemoteModule worker0_env ''worker1'' (Creator ''f'') None None None None
                   fresh_state)))
   \<and> is_creation_request (Rpc_remote ''worker1'' (Creator ''f'') [] [])
   \<and> fst (RemoteModule worker0_env ''worker1'' (Creator ''f'') None None None None fresh_state) =
       Inr plain_proxy
   \<and> rm_module_rref plain_proxy = UserRRef ''worker1'' (Creator ''f'') [] []
   \<and> RemoteModule worker0_env ''worker1'' (Creator ''f'') (Some []) (Some []) None None fresh_state =
       RemoteModule worker0_env ''worker1'' (Creator ''f'') None None None None fresh_state
   \<and> Rpc_remote ''worker1'' (Creator ''f'') [] [] =
       Rpc_remote ''worker1'' (Creator ''f'') (args_or_empty None) (kwargs_or_empty None)"
proof -
  note inst = RemoteModule_default_arguments
     [where s = fresh_state and e = worker0_env and to = "''worker1''" and mc = "Creator ''f''"
        and args = None and kwargs = None and gname = None and icls = None]
  note inst' = RemoteModule_default_arguments
     [where s = fresh_state and e = worker0_env and to = "''worker1''" and mc = "Creator ''f''"
        and args = "Some []" and kwargs = None and gname = None and icls = None]
  have mem: "Rpc_remote ''worker1'' (Creator ''f'') [] [] \<in>
     set (events_of_run fresh_state
           (snd (RemoteModule worker0_env ''worker1'' (Creator ''f'') None None None None
                   fresh_state)))"
    unfolding run_plain events_of_run_def by (simp add: fresh_state_def)
  have ok: "fst (RemoteModule worker0_env ''worker1'' (Creator ''f'') None None None None
      fresh_state) = Inr plain_proxy"
    by (simp add: run_plain)
  from inst inst' mem ok show ?thesis
    by (simp add: plain_proxy_def)
qed

subsection \<open>The capability flag\<close>

lemma capability_flag_present:
  "map_of (iface_attrs cls) ''__torch_script_interface__'' = Some v \<Longrightarrow> capability_flag cls = v"
  by (simp add: capability_flag_def getattr_def)

lemma capability_flag_absent:
  "map_of (iface_attrs cls) ''__torch_script_interface__'' = None \<Longrightarrow>
   capability_flag cls = PyBool False"
  by (simp add: capability_flag_def getattr_def)

lemma RemoteModule_flag_in_run:
  assumes agent: "current_rpc_agent e = Some agent"
    and cls: "resolved_iface e mc icls = Inr cls"
  shows "(\<exists>name rest. events_of_run s (snd (RemoteModule e to mc args kwargs gname icls s)) =
            Rpc_async to name cls (capability_flag cls) # rest)
    \<and> (\<forall>p. fst (RemoteModule e to mc args kwargs gname icls s) = Inr p \<longrightarrow>
          rm_is_scriptable p = capability_flag cls)"
  using agent
  by (cases rule: RemoteModule_cases [where mc = mc and icls = icls and to = to
        and gname = gname and s = s and args = args and kwargs = kwargs])
     (use cls in \<open>simp_all add: new_remote_module_def\<close>)

lemma RemoteModule_deferred_path:
  assumes agent: "current_rpc_agent e = Some agent"
    and cls: "resolved_iface e mc icls = Inr cls"
    and flag: "\<not> truthy (capability_flag cls)"
  shows "(\<forall>p. fst (RemoteModule e to mc args kwargs gname icls s) = Inr p \<longrightarrow>
            rm_module_rref p = UserRRef to mc (args_or_empty args) (kwargs_or_empty kwargs))
    \<and> (\<forall>ev \<in> set (events_of_run s (snd (RemoteModule e to mc args kwargs gname icls s))).
          \<forall>t m c a k. ev \<noteq> Rpc_sync t m c a k)
    \<and> (\<forall>nd c. rpc_route e to = Inr nd \<longrightarrow>
          instantiate_template (self_node e) (resolved_name agent gname s) cls (capability_flag cls)
            = Inr c \<longrightarrow>
          filter is_creation_request
            (events_of_run s (snd (RemoteModule e to mc args kwargs gname icls s))) =
            [Rpc_remote to mc (args_or_empty args) (kwargs_or_empty kwargs)])"
  using agent
  by (cases rule: RemoteModule_cases [where mc = mc and icls = icls and to = to
        and gname = gname and s = s and args = args and kwargs = kwargs])
     (use cls flag in \<open>auto simp: new_remote_module_def creation_event_def creation_result_def\<close>)

text \<open>
  Claim C10. With an agent set and the interface class resolved, the capability flag of
  the run (the flag the template request carries and the returned proxy stores) is the
  value of the class attribute \<^verbatim>\<open>__torch_script_interface__\<close> when the class has it, and
  \<^verbatim>\<open>False\<close> when it has not. In the second case the run takes the deferred path: it never
  makes a synchronous creation RPC, once the creation step is reached its one creation
  request is \<^verbatim>\<open>rpc.remote\<close>, and a returned proxy holds the handle of \<^verbatim>\<open>rpc.remote\<close>.
\<close>

theorem RemoteModule_capability_flag:
  assumes agent: "current_rpc_agent e = Some agent"
    and cls: "resolved_iface e mc icls = Inr cls"
  shows "(\<forall>v. map_of (iface_attrs cls) ''__torch_script_interface__'' = Some v \<longrightarrow>
          (\<exists>name rest. events_of_run s (snd (RemoteModule e to mc args kwargs gname icls s)) =
              Rpc_async to name cls v # rest)
        \<and> (\<forall>p. fst (RemoteModule e to mc args kwargs gname icls s) = Inr p \<longrightarrow>
              rm_is_scriptable p = v))
    \<and> (map_of (iface_attrs cls) ''__torch_script_interface__'' = None \<longrightarrow>
          (\<exists>name rest. events_of_run s (snd (RemoteModule e to mc args kwargs gname icls s)) =
              Rpc_async to name cls (PyBool False) # rest)
        \<and> (\<forall>p. fst (RemoteModule e to mc args kwargs gname icls s) = Inr p \<longrightarrow>
              rm_is_scriptable p = PyBool False
            \<and> rm_module_rref p = UserRRef to mc (args_or_empty args) (kwargs_or_empty kwargs))
        \<and> (\<forall>ev \<in> set (events_of_run s (snd (RemoteModule e to mc args kwargs gname icls s))).
              \<forall>t m c a k. ev \<noteq> Rpc_sync t m c a k)
        \<and> (\<forall>nd c. rpc_route e to = Inr nd \<longrightarrow>
              instantiate_template (self_node e) (resolved_name agent gname s) cls (PyBool False)
                = Inr c \<longrightarrow>
              filter is_creation_request
                (events_of_run s (snd (RemoteModule e to mc args kwargs gname icls s))) =
                [Rpc_remote to mc (args_or_empty args) (kwargs_or_empty kwargs)]))"
proof (intro conjI allI impI)
  fix v
  assume "map_of (iface_attrs cls) ''__torch_script_interface__'' = Some v"
  then have v: "capability_flag cls = v"
    by (rule capability_flag_present)
  from RemoteModule_flag_in_run [OF agent cls,
      where s = s and to = to and args = args and kwargs = kwargs and gname = gname] v
  show "\<exists>name rest. events_of_run s (snd (RemoteModule e to mc args kwargs gname icls s)) =
              Rpc_async to name cls v # rest"
    and "\<And>p. fst (RemoteModule e to mc args kwargs gname icls s) = Inr p \<Longrightarrow>
              rm_is_scriptable p = v"
    by simp_all
next
  assume "map_of (iface_attrs cls) ''__torch_script_interface__'' = None"
  then have absent: "capability_flag cls = PyBool False"
    by (rule capability_flag_absent)
  then have flag: "\<not> truthy (capability_flag cls)"
    by simp
  note run = RemoteModule_flag_in_run [OF agent cls,
      where s = s and to = to and args = args and kwargs = kwargs and gname = gname, unfolded absent]
  note deferred = RemoteModule_deferred_path [OF agent cls flag,
      where s = s and to = to and args = args and kwargs = kwargs and gname = gname, unfolded absent]
  from run show "\<exists>name rest. events_of_run s (snd (RemoteModule e to mc args kwargs gname icls s)) =
              Rpc_async to name cls (PyBool False) # rest"
    by simp
  from run show "\<And>p. fst (RemoteModule e to mc args kwargs gname icls s) = Inr p \<Longrightarrow>
              rm_is_scriptable p = PyBool False"
    by simp
  from deferred show "\<And>p. fst (RemoteModule e to mc args kwargs gname icls s) = Inr p \<Longrightarrow>
      rm_module_rref p = UserRRef to mc (args_or_empty args) (kwargs_or_empty kwargs)"
    by simp
  from deferred show "\<forall>ev \<in> set (events_of_run s (snd (RemoteModule e to mc args kwargs gname icls s))).
              \<forall>t m c a k. ev \<noteq> Rpc_sync t m c a k"
    by simp
  from deferred show "\<And>nd c. rpc_route e to = Inr nd \<Longrightarrow>
              instantiate_template (self_node e) (resolved_name agent gname s) cls (PyBool False)
                = Inr c \<Longrightarrow>
              filter is_creation_request
                (events_of_run s (snd (RemoteModule e to mc args kwargs gname icls s))) =
                [Rpc_remote to mc (args_or_empty args) (kwargs_or_empty kwargs)]"
    by blast
qed

theorem RemoteModule_capability_flag_witness:
  "map_of (iface_attrs plain_iface) ''__torch_script_interface__'' = None
   \<and> (\<exists>name rest.
        events_of_run fresh_state
          (snd (RemoteModule worker0_env ''worker1'' (Creator ''f'') None None None None
                  fresh_state)) =
        Rpc_async ''worker1'' name plain_iface (PyBool False) # rest)
   \<and> filter is_creation_request
        (events_of_run fresh_state
          (snd (RemoteModule worker0_env ''worker1'' (Creator ''f'') None None None None
                  fresh_state))) =
        [Rpc_remote ''worker1'' (Creator ''f'') [] []]
   \<and> map_of (iface_attrs scriptable_iface) ''__torch_script_interface__'' = Some (PyBool True)
   \<and> (\<exists>name rest.
        events_of_run fresh_state
          (snd (RemoteModule worker0_env ''worker1'' (Creator ''f'') None None None
                  (Some scriptable_iface) fresh_state)) =
        Rpc_async ''worker1'' name scriptable_iface (PyBool True) # rest)"
proof -
  have absent: "map_of (iface_attrs plain_iface) ''__torch_script_interface__'' = None"
    by (simp add: plain_iface_def)
  have present: "map_of (iface_attrs scriptable_iface) ''__torch_script_interface__'' =
      Some (PyBool True)"
    by (simp add: scriptable_iface_def)
  have local: "instantiate_template (self_node worker0_env)
      (resolved_name \<lparr>worker_name = ''worker0''\<rparr> None fresh_state) plain_iface (PyBool False) =
      Inr \<lparr>cls_module_name = ''_RemoteModule_worker0_0'',
           cls_methods = [''forward'', ''forward_async'']\<rparr>"
    by (simp add: worker0_self resolved_name_fresh good_node_instantiate)
  note plain = RemoteModule_capability_flag
     [OF worker0_agent resolved_iface_inferred,
      where s = fresh_state and to = "''worker1''" and mc = "Creator ''f''"
        and args = None and kwargs = None and gname = None,
      THEN conjunct2, THEN mp, OF absent]
  note scriptable = RemoteModule_capability_flag
     [OF worker0_agent resolved_iface_given,
      where s = fresh_state and to = "''worker1''" and mc = "Creator ''f''"
        and args = None and kwargs = None and gname = None and cls = scriptable_iface,
      THEN conjunct1, THEN spec, THEN mp, OF present]
  note first = plain [THEN conjunct1]
  note creation = plain [THEN conjunct2, THEN conjunct2, THEN conjunct2, THEN spec, THEN spec,
      THEN mp, THEN mp, OF worker0_route1 local]
  note third = scriptable [THEN conjunct1]
  have norm: "args_or_empty None = []" "kwargs_or_empty None = []"
    by (simp_all add: args_or_empty_def kwargs_or_empty_def)
  from absent first creation [unfolded norm] present third show ?thesis
    by (intro conjI)
qed

subsection \<open>Determinism of the template instantiation\<close>




subsection \<open>The invariant of the identity allocator\<close>

lemma thread_ok_start: "thread_ok e (start c) i"
  by (simp add: thread_ok_def start_def new_thread_def)

lemma invariant_start: "invariant e (start c)"
  unfolding invariant_def
proof (intro conjI allI)
  show "thread_ok e (start c) i" for i
    by (rule thread_ok_start)
  show "ids_distinct (start c)"
    by (simp add: ids_distinct_def start_def new_thread_def)
qed

lemma thread_ok_step_self:
  assumes "thread_ok e p i"
  shows "thread_ok e (step e i p) i"
  using assms
  by (cases "t_pc (threads p i)")
     (auto simp: thread_ok_def step_def set_thread_def Let_def get_current_rpc_agent_def
           split: option.splits sum.splits)

lemma not_critical_if_other_holds:
  assumes "thread_ok e p k" and "lock_holder p = Some i" and "k \<noteq> i"
  shows "\<not> in_critical_section (t_pc (threads p k))"
  using assms by (simp add: thread_ok_def Let_def)

lemma not_critical_if_free:
  assumes "thread_ok e p k" and "lock_holder p = None"
  shows "\<not> in_critical_section (t_pc (threads p k))"
  using assms by (simp add: thread_ok_def Let_def)

lemma holder_if_critical:
  assumes "thread_ok e p i" and "in_critical_section (t_pc (threads p i))"
  shows "lock_holder p = Some i"
  using assms by (simp add: thread_ok_def Let_def)

lemma thread_ok_step_other:
  assumes i: "thread_ok e p i" and k: "thread_ok e p k" and ne: "k \<noteq> i"
  shows "thread_ok e (step e i p) k"
proof (cases "t_pc (threads p i)")
  case Acquire
  show ?thesis
  proof (cases "lock_holder p")
    case None
    with not_critical_if_free [OF k None] Acquire k ne show ?thesis
      by (cases "t_pc (threads p k)")
         (simp_all add: thread_ok_def step_def set_thread_def Let_def)
  next
    case (Some h)
    with Acquire k show ?thesis
      by (simp add: step_def Let_def)
  qed
next
  case Read_id
  with k ne show ?thesis
    by (cases "t_pc (threads p k)")
       (simp_all add: thread_ok_def step_def set_thread_def Let_def)
next
  case Load_counter
  with k ne show ?thesis
    by (cases "t_pc (threads p k)")
       (simp_all add: thread_ok_def step_def set_thread_def Let_def)
next
  case Store_counter
  with i have holder: "lock_holder p = Some i"
    and loaded: "t_loaded (threads p i) = shared_NEXT_LOCAL_ID p"
    by (simp_all add: thread_ok_def Let_def)
  from not_critical_if_other_holds [OF k holder ne] k ne Store_counter loaded show ?thesis
    by (cases "t_pc (threads p k)")
       (simp_all add: thread_ok_def step_def set_thread_def Let_def)
next
  case Release
  with i have holder: "lock_holder p = Some i"
    by (simp add: thread_ok_def Let_def)
  from not_critical_if_other_holds [OF k holder ne] k ne Release show ?thesis
    by (cases "t_pc (threads p k)")
       (simp_all add: thread_ok_def step_def set_thread_def Let_def)
next
  case Read_name
  with k ne show ?thesis
    by (cases "get_current_rpc_agent e"; cases "t_pc (threads p k)")
       (simp_all add: thread_ok_def step_def set_thread_def Let_def)
next
  case Format
  with k ne show ?thesis
    by (cases "t_pc (threads p k)")
       (simp_all add: thread_ok_def step_def set_thread_def Let_def)
next
  case Returned
  with k show ?thesis
    by (simp add: step_def Let_def)
qed

lemma ids_distinct_step:
  assumes ok: "\<And>k. thread_ok e p k" and dist: "ids_distinct p"
  shows "ids_distinct (step e i p)"
proof (cases "t_pc (threads p i)")
  case Acquire
  with dist show ?thesis
    by (cases "lock_holder p")
       (auto simp: ids_distinct_def step_def set_thread_def Let_def)
next
  case Read_id
  with ok [of i] have holder: "lock_holder p = Some i"
    by (simp add: thread_ok_def Let_def)
  have below: "t_local_unique_id (threads p k) < shared_NEXT_LOCAL_ID p"
    if "k \<noteq> i" and "has_id (t_pc (threads p k))" for k
    using not_critical_if_other_holds [OF ok [of k] holder that(1)] ok [of k] that(2)
    by (cases "t_pc (threads p k)") (auto simp: thread_ok_def Let_def split: sum.splits)
  show ?thesis
    unfolding ids_distinct_def
  proof (intro allI impI)
    fix a b
    assume ne: "a \<noteq> b"
      and ha: "has_id (t_pc (threads (step e i p) a))"
      and hb: "has_id (t_pc (threads (step e i p) b))"
    show "t_local_unique_id (threads (step e i p) a) \<noteq>
          t_local_unique_id (threads (step e i p) b)"
    proof (cases "a = i")
      case True
      with ne have "b \<noteq> i" by simp
      with hb Read_id have "has_id (t_pc (threads p b))"
        by (simp add: step_def set_thread_def Let_def)
      from below [OF \<open>b \<noteq> i\<close> this] True \<open>b \<noteq> i\<close> Read_id show ?thesis
        by (simp add: step_def set_thread_def Let_def)
    next
      case False
      with ha Read_id have a: "has_id (t_pc (threads p a))"
        by (simp add: step_def set_thread_def Let_def)
      show ?thesis
      proof (cases "b = i")
        case True
        from below [OF False a] True False Read_id show ?thesis
          by (simp add: step_def set_thread_def Let_def)
      next
        case bi: False
        with hb Read_id have "has_id (t_pc (threads p b))"
          by (simp add: step_def set_thread_def Let_def)
        with dist ne a have "t_local_unique_id (threads p a) \<noteq> t_local_unique_id (threads p b)"
          by (simp add: ids_distinct_def)
        with False bi Read_id show ?thesis
          by (simp add: step_def set_thread_def Let_def)
      qed
    qed
  qed
next
  case Load_counter
  with dist show ?thesis
    by (auto simp: ids_distinct_def step_def set_thread_def Let_def)
next
  case Store_counter
  with dist show ?thesis
    by (auto simp: ids_distinct_def step_def set_thread_def Let_def)
next
  case Release
  with dist show ?thesis
    by (auto simp: ids_distinct_def step_def set_thread_def Let_def)
next
  case Read_name
  with dist show ?thesis
    by (cases "get_current_rpc_agent e")
       (auto simp: ids_distinct_def step_def set_thread_def Let_def)
next
  case Format
  with dist show ?thesis
    by (auto simp: ids_distinct_def step_def set_thread_def Let_def)
next
  case Returned
  with dist show ?thesis
    by (simp add: step_def Let_def)
qed

lemma invariant_step:
  assumes "invariant e p"
  shows "invariant e (step e i p)"
proof -
  from assms have ok: "thread_ok e p k" and dist: "ids_distinct p" for k
    by (simp_all add: invariant_def)
  have "thread_ok e (step e i p) k" for k
    by (cases "k = i") (simp_all add: thread_ok_step_self thread_ok_step_other ok)
  with ids_distinct_step [OF ok dist] show ?thesis
    by (simp add: invariant_def)
qed

lemma invariant_run:
  "invariant e p \<Longrightarrow> invariant e (run e sched p)"
  by (induction sched arbitrary: p) (simp_all add: invariant_step)

subsection \<open>Decimal formatting is injective\<close>

lemma of_char_minus: "(of_char CHR ''-'' :: nat) = 45"
  by code_simp

lemma of_char_digit_char: "d < 10 \<Longrightarrow> (of_char (digit_char d) :: nat) = 48 + d"
  by (simp add: digit_char_def)

lemma digit_char_not_minus: "d < 10 \<Longrightarrow> digit_char d \<noteq> CHR ''-''"
proof
  assume d: "d < 10" and "digit_char d = CHR ''-''"
  then have "(of_char (digit_char d) :: nat) = 45"
    by (simp only: of_char_minus)
  with d show False
    by (simp only: of_char_digit_char)
qed

lemma digits_of_str_nat:
  "foldl (\<lambda>a c. 10 * a + (of_char c - 48)) 0 (str_nat n) = n"
proof (induction n rule: str_nat.induct)
  case (1 n)
  show ?case
  proof (cases "n < 10")
    case True
    then show ?thesis
      by (subst str_nat.simps) (simp add: of_char_digit_char)
  next
    case False
    with 1 have "foldl (\<lambda>a c. 10 * a + (of_char c - 48)) 0 (str_nat (n div 10)) = n div 10"
      by simp
    with False show ?thesis
      by (subst str_nat.simps) (simp add: of_char_digit_char)
  qed
qed

lemma str_nat_inj: "str_nat m = str_nat n \<Longrightarrow> m = n"
  by (metis digits_of_str_nat)

lemma str_nat_no_minus: "CHR ''-'' \<notin> set (str_nat n)"
proof (induction n rule: str_nat.induct)
  case (1 n)
  show ?case
  proof (cases "n < 10")
    case True
    then show ?thesis
      by (subst str_nat.simps) (simp add: digit_char_not_minus [symmetric])
  next
    case False
    with 1 show ?thesis
      by (subst str_nat.simps) (simp add: digit_char_not_minus [symmetric])
  qed
qed

lemma str_nat_not_minus_first: "str_nat n \<noteq> CHR ''-'' # cs"
  using str_nat_no_minus [of n] by auto

lemma str_int_inj:
  assumes "str_int i = str_int j"
  shows "i = j"
proof (cases "i < 0"; cases "j < 0")
  assume "i < 0" "j < 0"
  with assms have "str_nat (nat (- i)) = str_nat (nat (- j))"
    by (simp add: str_int_def)
  then have "nat (- i) = nat (- j)"
    by (rule str_nat_inj)
  with \<open>i < 0\<close> \<open>j < 0\<close> show ?thesis
    by simp
next
  assume "i < 0" "\<not> j < 0"
  with assms str_nat_not_minus_first [of "nat j" "str_nat (nat (- i))"] show ?thesis
    by (simp add: str_int_def)
next
  assume "\<not> i < 0" "j < 0"
  with assms str_nat_not_minus_first [of "nat i" "str_nat (nat (- j))"] show ?thesis
    by (simp add: str_int_def)
next
  assume "\<not> i < 0" "\<not> j < 0"
  with assms have "str_nat (nat i) = str_nat (nat j)"
    by (simp add: str_int_def)
  then have "nat i = nat j"
    by (rule str_nat_inj)
  with \<open>\<not> i < 0\<close> \<open>\<not> j < 0\<close> show ?thesis
    by simp
qed

subsection \<open>Names allocated by concurrent callers\<close>

text \<open>
  A caller whose seven steps are not interleaved with anyone's finds the lock free,
  returns what \<open>gen_global_unique_name\<close> returns and leaves the counter as it does: the
  step-wise function is the function above.
\<close>

lemma single_caller_agrees:
  assumes "t_pc (threads p i) = Acquire" and "lock_holder p = None"
  shows "t_returned (threads (run e [i, i, i, i, i, i, i] p) i) =
           Some (fst (gen_global_unique_name e \<lparr>NEXT_LOCAL_ID = shared_NEXT_LOCAL_ID p, trace = tr\<rparr>))
    \<and> shared_NEXT_LOCAL_ID (run e [i, i, i, i, i, i, i] p) =
        NEXT_LOCAL_ID (snd (gen_global_unique_name e
                              \<lparr>NEXT_LOCAL_ID = shared_NEXT_LOCAL_ID p, trace = tr\<rparr>))
    \<and> lock_holder (run e [i, i, i, i, i, i, i] p) = None"
  using assms
  by (cases "get_current_rpc_agent e")
     (simp_all add: step_def set_thread_def gen_global_unique_name_def Let_def)

lemma thread_ok_returned:
  assumes "thread_ok e p i" and "t_returned (threads p i) = Some (Inr a)"
  shows "has_id (t_pc (threads p i))
    \<and> (\<exists>agent. get_current_rpc_agent e = Inr agent
          \<and> a = worker_name agent @ ''_'' @ str_int (t_local_unique_id (threads p i)))"
  using assms
  by (cases "t_pc (threads p i)"; cases "get_current_rpc_agent e")
     (simp_all add: thread_ok_def Let_def)

text \<open>
  Claim C5. Take any number of threads that call \<^verbatim>\<open>_gen_global_unique_name\<close> in one
  process, and any interleaving of their steps. Two different threads that have
  returned a name have returned different names, because they read different values of
  the counter: the read and the increment happen while the thread holds the lock.
\<close>

theorem gen_global_unique_name_distinct:
  assumes ne: "i \<noteq> j"
    and a: "t_returned (threads (run e sched (start c)) i) = Some (Inr a)"
    and b: "t_returned (threads (run e sched (start c)) j) = Some (Inr b)"
  shows "a \<noteq> b
    \<and> t_local_unique_id (threads (run e sched (start c)) i) \<noteq>
        t_local_unique_id (threads (run e sched (start c)) j)"
proof -
  let ?p = "run e sched (start c)"
  have inv: "invariant e ?p"
    by (rule invariant_run) (rule invariant_start)
  then have ok: "thread_ok e ?p k" for k
    by (simp add: invariant_def)
  from thread_ok_returned [OF ok a] obtain agent where
    hi: "has_id (t_pc (threads ?p i))" and
    agent: "get_current_rpc_agent e = Inr agent" and
    a_eq: "a = worker_name agent @ ''_'' @ str_int (t_local_unique_id (threads ?p i))"
    by blast
  from thread_ok_returned [OF ok b] agent have
    hj: "has_id (t_pc (threads ?p j))" and
    b_eq: "b = worker_name agent @ ''_'' @ str_int (t_local_unique_id (threads ?p j))"
    by auto
  from inv ne hi hj have ids: "t_local_unique_id (threads ?p i) \<noteq> t_local_unique_id (threads ?p j)"
    by (simp add: invariant_def ids_distinct_def)
  have "a \<noteq> b"
  proof
    assume "a = b"
    with a_eq b_eq have "str_int (t_local_unique_id (threads ?p i)) =
        str_int (t_local_unique_id (threads ?p j))"
      by simp
    then have "t_local_unique_id (threads ?p i) = t_local_unique_id (threads ?p j)"
      by (rule str_int_inj)
    with ids show False
      by simp
  qed
  with ids show ?thesis
    by simp
qed

lemma interleaved_first:
  "t_returned (threads (run worker0_env interleaved (start 5)) 0) = Some (Inr ''worker0_5'')"
  by code_simp

lemma interleaved_second:
  "t_returned (threads (run worker0_env interleaved (start 5)) 1) = Some (Inr ''worker0_6'')"
  by code_simp

theorem gen_global_unique_name_distinct_witness:
  "t_returned (threads (run worker0_env interleaved (start 5)) 0) = Some (Inr ''worker0_5'')
   \<and> t_returned (threads (run worker0_env interleaved (start 5)) 1) = Some (Inr ''worker0_6'')
   \<and> ''worker0_5'' \<noteq> ''worker0_6''
   \<and> t_local_unique_id (threads (run worker0_env interleaved (start 5)) 0) \<noteq>
       t_local_unique_id (threads (run worker0_env interleaved (start 5)) 1)"
proof -
  have ne: "(0::nat) \<noteq> 1"
    by simp
  from gen_global_unique_name_distinct [OF ne interleaved_first interleaved_second]
    interleaved_first interleaved_second
  show ?thesis
    by (intro conjI) simp_all
qed

end
